theory Spec2Isabelle
  imports Main "HOL-Library.Multiset"
begin

section \<open>The room-list filter of \<^verbatim>\<open>js/room_list.js\<close>\<close>

text \<open>
  The script keeps three tri-state filters in a module-level object, reads three
  \<^verbatim>\<open>data-*\<close> attributes of every room card, and on each click of a filter button
  advances that button's filter, restyles the button and rewrites the \<^verbatim>\<open>display\<close>
  style of every card. The embedding below passes the module's mutable state (the
  filter object, the cards, the class lists of the three buttons) explicitly.
\<close>

subsection \<open>Data\<close>

text \<open>
  A filter value is one of the JavaScript values \<^verbatim>\<open>null\<close> (disabled), \<^verbatim>\<open>true\<close>
  (enabled) and \<^verbatim>\<open>false\<close> (inverted), line 6: \<open>None\<close>, \<open>Some True\<close> and
  \<open>Some False\<close>. The specification calls them Unset, Require and Exclude.
\<close>

type_synonym filter = "bool option"

abbreviation Unset :: filter where "Unset \<equiv> None"
abbreviation Require :: filter where "Require \<equiv> Some True"
abbreviation Exclude :: filter where "Exclude \<equiv> Some False"

text \<open>
  The object \<^verbatim>\<open>filters\<close> of lines 7 to 11 has exactly the properties
  \<^verbatim>\<open>direct\<close>, \<^verbatim>\<open>encrypted\<close> and \<^verbatim>\<open>unread\<close>.
\<close>

record filters_obj =
  direct :: filter
  encrypted :: filter
  unread :: filter

text \<open>
  \<^verbatim>\<open>toggleFilter\<close> reaches a property through its name. The three call sites
  (lines 52, 56, 60) pass the literals \<^verbatim>\<open>"direct"\<close>, \<^verbatim>\<open>"encrypted"\<close> and
  \<^verbatim>\<open>"unread"\<close>; these are the values of \<open>filterName\<close>.
\<close>

datatype filterName = Direct | Encrypted | Unread

text \<open>The read \<^verbatim>\<open>filters[filterName]\<close> and the write \<^verbatim>\<open>filters[filterName] = v\<close>.\<close>

fun filters_get :: "filters_obj \<Rightarrow> filterName \<Rightarrow> filter" where
  "filters_get f Direct = direct f"
| "filters_get f Encrypted = encrypted f"
| "filters_get f Unread = unread f"

fun filters_set :: "filters_obj \<Rightarrow> filterName \<Rightarrow> filter \<Rightarrow> filters_obj" where
  "filters_set f Direct v = f\<lparr>direct := v\<rparr>"
| "filters_set f Encrypted v = f\<lparr>encrypted := v\<rparr>"
| "filters_set f Unread v = f\<lparr>unread := v\<rparr>"

text \<open>
  A room card, as far as the script touches it: the entries \<^verbatim>\<open>isDirect\<close>,
  \<^verbatim>\<open>isEncrypted\<close> and \<^verbatim>\<open>hasUnread\<close> of \<^verbatim>\<open>card.dataset\<close>, each a string or
  \<^verbatim>\<open>undefined\<close> (\<open>None\<close>) when the element has no such attribute, and
  \<^verbatim>\<open>card.style.display\<close>. The script compares the strings with \<^verbatim>\<open>"true"\<close> only.
\<close>

record card =
  isDirect :: "string option"
  isEncrypted :: "string option"
  hasUnread :: "string option"
  display :: string

text \<open>
  The three buttons of lines 1 to 3. A button is a reference; its
  \<^verbatim>\<open>classList\<close> lives in the state, an ordered set of class names.
\<close>

datatype button = directRoomsBtn | encryptedRoomsBtn | unreadRoomsBtn

record state =
  filters :: filters_obj
  roomCards :: "card list"
  classList :: "button \<Rightarrow> string list"

text \<open>
  \<^verbatim>\<open>DOMTokenList.remove\<close> drops every listed token; \<^verbatim>\<open>DOMTokenList.add\<close>
  appends a token that is not yet present.
\<close>

definition classList_remove :: "string list \<Rightarrow> string list \<Rightarrow> string list" where
  "classList_remove tokens cl = filter (\<lambda>t. t \<notin> set tokens) cl"

definition classList_add :: "string \<Rightarrow> string list \<Rightarrow> string list" where
  "classList_add t cl = (if t \<in> set cl then cl else cl @ [t])"

subsection \<open>Operations\<close>

text \<open>Lines 14 to 18.\<close>

definition updateButtonStyles :: "button \<Rightarrow> filter \<Rightarrow> state \<Rightarrow> state" where
  "updateButtonStyles btn flt s =
     (let s1 = s\<lparr>classList := (classList s)
                 (btn := classList_remove [''active'', ''inverted''] (classList s btn))\<rparr>;
          s2 = (if flt = Some True
                then s1\<lparr>classList := (classList s1)
                         (btn := classList_add ''active'' (classList s1 btn))\<rparr>
                else s1);
          s3 = (if flt = Some False
                then s2\<lparr>classList := (classList s2)
                         (btn := classList_add ''inverted'' (classList s2 btn))\<rparr>
                else s2)
      in s3)"

text \<open>Lines 20 to 23.\<close>

definition checkFilter :: "filter \<Rightarrow> bool \<Rightarrow> bool" where
  "checkFilter flt v = (if flt = None then True else flt = Some v)"

text \<open>The expression bound to \<^verbatim>\<open>showCard\<close>, lines 27 to 30.\<close>

definition showCard :: "filters_obj \<Rightarrow> card \<Rightarrow> bool" where
  "showCard f c =
     (checkFilter (direct f) (isDirect c = Some ''true'') \<and>
      checkFilter (encrypted f) (isEncrypted c = Some ''true'') \<and>
      checkFilter (unread f) (hasUnread c = Some ''true''))"

text \<open>The loop of lines 26 to 33 over the cards, and \<^verbatim>\<open>applyFilters\<close> on the state.\<close>

fun applyFilters_loop :: "filters_obj \<Rightarrow> card list \<Rightarrow> card list" where
  "applyFilters_loop f [] = []"
| "applyFilters_loop f (c # cs) =
     c\<lparr>display := (if showCard f c then ''flex'' else ''none'')\<rparr> # applyFilters_loop f cs"

definition applyFilters :: "state \<Rightarrow> state" where
  "applyFilters s = s\<lparr>roomCards := applyFilters_loop (filters s) (roomCards s)\<rparr>"

text \<open>Lines 37 to 48.\<close>

definition toggleFilter :: "filterName \<Rightarrow> button \<Rightarrow> state \<Rightarrow> state" where
  "toggleFilter filterName btn s =
     (let s1 = (if filters_get (filters s) filterName = None
                then s\<lparr>filters := filters_set (filters s) filterName (Some True)\<rparr>
                else if filters_get (filters s) filterName = Some True
                then s\<lparr>filters := filters_set (filters s) filterName (Some False)\<rparr>
                else s\<lparr>filters := filters_set (filters s) filterName None\<rparr>);
          s2 = updateButtonStyles btn (filters_get (filters s1) filterName) s1
      in applyFilters s2)"

text \<open>The click listeners of lines 51 to 61.\<close>

fun click :: "button \<Rightarrow> state \<Rightarrow> state" where
  "click directRoomsBtn s = toggleFilter Direct directRoomsBtn s"
| "click encryptedRoomsBtn s = toggleFilter Encrypted encryptedRoomsBtn s"
| "click unreadRoomsBtn s = toggleFilter Unread unreadRoomsBtn s"

text \<open>
  The state once the module is loaded: every filter \<^verbatim>\<open>null\<close>, the cards and the
  class lists as the document has them.
\<close>

definition init :: "card list \<Rightarrow> (button \<Rightarrow> string list) \<Rightarrow> state" where
  "init cards cls =
     \<lparr>filters = \<lparr>direct = None, encrypted = None, unread = None\<rparr>,
      roomCards = cards, classList = cls\<rparr>"

subsection \<open>Vocabulary of the specification\<close>

text \<open>
  The specification speaks of a card's three boolean tags. In the script the tag of a
  dimension is the outcome of comparing the matching attribute with \<^verbatim>\<open>"true"\<close>:
  \<^verbatim>\<open>direct\<close> goes with \<^verbatim>\<open>isDirect\<close>, \<^verbatim>\<open>encrypted\<close> with \<^verbatim>\<open>isEncrypted\<close>,
  \<^verbatim>\<open>unread\<close> with \<^verbatim>\<open>hasUnread\<close> (lines 28 to 30).
\<close>

fun card_attr :: "card \<Rightarrow> filterName \<Rightarrow> string option" where
  "card_attr c Direct = isDirect c"
| "card_attr c Encrypted = isEncrypted c"
| "card_attr c Unread = hasUnread c"

fun set_attr :: "filterName \<Rightarrow> string option \<Rightarrow> card \<Rightarrow> card" where
  "set_attr Direct v c = c\<lparr>isDirect := v\<rparr>"
| "set_attr Encrypted v c = c\<lparr>isEncrypted := v\<rparr>"
| "set_attr Unread v c = c\<lparr>hasUnread := v\<rparr>"

definition tagValue :: "card \<Rightarrow> filterName \<Rightarrow> bool" where
  "tagValue c d = (card_attr c d = Some ''true'')"

text \<open>The cycle Unset, Require, Exclude, Unset as the specification words it.\<close>

fun cycle_next :: "filter \<Rightarrow> filter" where
  "cycle_next None = Some True"
| "cycle_next (Some True) = Some False"
| "cycle_next (Some False) = None"

text \<open>
  The invariant of the specification's data model: the conjunction, over the three
  dimensions, of "the dimension is Unset, or its required boolean equals the tag".
\<close>

definition dimensions_and :: "filters_obj \<Rightarrow> card \<Rightarrow> bool" where
  "dimensions_and f c =
     ((filters_get f Direct = Unset \<or> filters_get f Direct = Some (tagValue c Direct)) \<and>
      (filters_get f Encrypted = Unset \<or> filters_get f Encrypted = Some (tagValue c Encrypted)) \<and>
      (filters_get f Unread = Unset \<or> filters_get f Unread = Some (tagValue c Unread)))"

text \<open>
  The two cards of the specification's scenarios, their boolean tags written as the
  attribute strings \<^verbatim>\<open>"true"\<close> and \<^verbatim>\<open>"false"\<close>, with no inline style yet.
\<close>

definition card1 :: card where
  "card1 = \<lparr>isDirect = Some ''true'', isEncrypted = Some ''false'',
            hasUnread = Some ''true'', display = []\<rparr>"

definition card2 :: card where
  "card2 = \<lparr>isDirect = Some ''false'', isEncrypted = Some ''true'',
            hasUnread = Some ''false'', display = []\<rparr>"

subsection \<open>Auxiliary facts\<close>

lemma filterName_all: "(\<forall>d. P d) = (P Direct \<and> P Encrypted \<and> P Unread)"
proof
  assume "\<forall>d. P d"
  then show "P Direct \<and> P Encrypted \<and> P Unread" by simp
next
  assume h: "P Direct \<and> P Encrypted \<and> P Unread"
  show "\<forall>d. P d"
  proof
    fix d show "P d" using h by (cases d) simp_all
  qed
qed

lemma filters_get_set_same [simp]: "filters_get (filters_set f d v) d = v"
  by (cases d) simp_all

lemma filters_get_set_other [simp]:
  "d' \<noteq> d \<Longrightarrow> filters_get (filters_set f d v) d' = filters_get f d'"
  by (cases d; cases d') simp_all

lemma applyFilters_loop_map:
  "applyFilters_loop f cs =
     map (\<lambda>c. c\<lparr>display := (if showCard f c then ''flex'' else ''none'')\<rparr>) cs"
  by (induction cs) simp_all

lemma showCard_display_irrelevant [simp]: "showCard f (c\<lparr>display := x\<rparr>) = showCard f c"
  by (simp add: showCard_def)

lemma filters_updateButtonStyles [simp]: "filters (updateButtonStyles btn flt s) = filters s"
  by (simp add: updateButtonStyles_def Let_def)

lemma roomCards_updateButtonStyles [simp]:
  "roomCards (updateButtonStyles btn flt s) = roomCards s"
  by (simp add: updateButtonStyles_def Let_def)

lemma filters_applyFilters [simp]: "filters (applyFilters s) = filters s"
  by (simp add: applyFilters_def)

lemma classList_applyFilters [simp]: "classList (applyFilters s) = classList s"
  by (simp add: applyFilters_def)

lemma filters_toggleFilter:
  "filters (toggleFilter d btn s) =
     filters_set (filters s) d (cycle_next (filters_get (filters s) d))"
proof (cases "filters_get (filters s) d")
  case None
  then show ?thesis by (simp add: toggleFilter_def Let_def)
next
  case (Some b)
  then show ?thesis by (cases b) (simp_all add: toggleFilter_def Let_def)
qed

lemma roomCards_toggleFilter:
  "roomCards (toggleFilter d btn s) =
     applyFilters_loop (filters (toggleFilter d btn s)) (roomCards s)"
proof -
  have "roomCards (toggleFilter d btn s) = applyFilters_loop
          (filters_set (filters s) d (cycle_next (filters_get (filters s) d))) (roomCards s)"
  proof (cases "filters_get (filters s) d")
    case None
    then show ?thesis by (simp add: toggleFilter_def Let_def applyFilters_def)
  next
    case (Some b)
    then show ?thesis by (cases b) (simp_all add: toggleFilter_def Let_def applyFilters_def)
  qed
  then show ?thesis by (simp add: filters_toggleFilter)
qed

lemma filters_get_init [simp]: "filters_get (filters (init cards cls)) d = None"
  by (cases d) (simp_all add: init_def)

lemma cycle_next_thrice: "cycle_next (cycle_next (cycle_next x)) = x"
proof (cases x)
  case None
  then show ?thesis by simp
next
  case (Some b)
  then show ?thesis by (cases b) simp_all
qed

lemma checkFilter_cases:
  "checkFilter flt v = (flt = None \<or> (flt = Some True \<and> v) \<or> (flt = Some False \<and> \<not> v))"
proof (cases flt)
  case None
  then show ?thesis by (simp add: checkFilter_def)
next
  case (Some b)
  then show ?thesis by (cases b; cases v) (simp_all add: checkFilter_def)
qed

lemma set_classList_remove [simp]: "set (classList_remove tokens cl) = set cl - set tokens"
  by (auto simp: classList_remove_def)

lemma set_classList_add [simp]: "set (classList_add t cl) = insert t (set cl)"
  by (auto simp: classList_add_def)

lemma updateButtonStyles_marker:
  "(''active'' \<in> set (classList (updateButtonStyles btn flt s) btn)) = (flt = Some True) \<and>
   (''inverted'' \<in> set (classList (updateButtonStyles btn flt s) btn)) = (flt = Some False)"
proof (cases flt)
  case None
  then show ?thesis by (simp add: updateButtonStyles_def Let_def)
next
  case (Some b)
  then show ?thesis by (cases b) (simp_all add: updateButtonStyles_def Let_def)
qed

lemma classList_toggleFilter:
  "classList (toggleFilter d btn s) btn =
     classList (updateButtonStyles btn (filters_get (filters (toggleFilter d btn s)) d) s) btn"
proof (cases "filters_get (filters s) d")
  case None
  then show ?thesis
    by (simp add: filters_toggleFilter) (simp add: toggleFilter_def Let_def updateButtonStyles_def)
next
  case (Some b)
  then show ?thesis
    by (cases b; simp add: filters_toggleFilter)
      (simp_all add: toggleFilter_def Let_def updateButtonStyles_def)
qed

lemma showCard_dimensions_and: "showCard f c = dimensions_and f c"
proof -
  have "checkFilter flt v = (flt = None \<or> flt = Some v)" for flt v
    by (cases flt) (simp_all add: checkFilter_def)
  then show ?thesis
    by (simp add: showCard_def dimensions_and_def tagValue_def)
qed

lemma showCard_tagValue:
  "tagValue c' = tagValue c \<Longrightarrow> showCard f c' = showCard f c"
proof -
  assume h: "tagValue c' = tagValue c"
  have "tagValue c' d = tagValue c d" for d using h by simp
  then show ?thesis by (simp add: showCard_dimensions_and dimensions_and_def)
qed

section \<open>Properties\<close>

text \<open>
  C1. For every card and every filter mapping, the \<^verbatim>\<open>showCard\<close> computation is true
  exactly when, for each of the three dimensions, the dimension is Unset, or it is
  Require and the card's tag for it is true, or it is Exclude and the tag is false.
\<close>

theorem showCard_iff_all_dimensions:
  "showCard f c =
     (\<forall>d. filters_get f d = Unset \<or>
          (filters_get f d = Require \<and> tagValue c d) \<or>
          (filters_get f d = Exclude \<and> \<not> tagValue c d))"
  unfolding filterName_all
  by (simp add: showCard_def tagValue_def checkFilter_cases)

text \<open>
  C2. One \<^verbatim>\<open>toggleFilter\<close> on a dimension moves that dimension's filter one step
  along the cycle Unset, Require, Exclude, Unset, whichever button is restyled; three
  of them in a row bring it back to where it was, so from the initial state back to
  Unset.
\<close>

theorem toggleFilter_cycle:
  "filters_get (filters (toggleFilter d btn s)) d = cycle_next (filters_get (filters s) d) \<and>
   filters_get (filters (toggleFilter d b3 (toggleFilter d b2 (toggleFilter d b1 s)))) d
     = filters_get (filters s) d \<and>
   filters_get (filters (toggleFilter d b3 (toggleFilter d b2 (toggleFilter d b1
     (init cards cls))))) d = Unset"
  by (simp add: filters_toggleFilter cycle_next_thrice)

text \<open>
  C3. \<^verbatim>\<open>toggleFilter\<close> on a dimension leaves the filter of every other dimension
  as it was.
\<close>

theorem toggleFilter_other_dimensions:
  "d' \<noteq> d \<Longrightarrow> filters_get (filters (toggleFilter d btn s)) d' = filters_get (filters s) d'"
  by (simp add: filters_toggleFilter)

theorem toggleFilter_other_dimensions_witness:
  "Direct \<noteq> Encrypted \<and> Unread \<noteq> Encrypted \<and>
   filters_get (filters (toggleFilter Encrypted encryptedRoomsBtn
     (init [] (\<lambda>b. [])))) Direct = Unset \<and>
   filters_get (filters (toggleFilter Encrypted encryptedRoomsBtn
     (init [] (\<lambda>b. [])))) Unread = Unset"
proof -
  have a: "Direct \<noteq> Encrypted" and b: "Unread \<noteq> Encrypted" by simp_all
  show ?thesis
    using a b
      toggleFilter_other_dimensions [OF a, of encryptedRoomsBtn "init [] (\<lambda>b. [])"]
      toggleFilter_other_dimensions [OF b, of encryptedRoomsBtn "init [] (\<lambda>b. [])"]
    by (simp add: init_def)
qed

text \<open>
  C4. Running \<^verbatim>\<open>applyFilters\<close> a second time with no toggle in between changes
  nothing: the state, and so the \<^verbatim>\<open>display\<close> of every card, is the one the first
  run produced.
\<close>

theorem applyFilters_idempotent: "applyFilters (applyFilters s) = applyFilters s"
  by (simp add: applyFilters_def applyFilters_loop_map)

text \<open>
  C5. After every \<^verbatim>\<open>toggleFilter\<close>, which ends by running \<^verbatim>\<open>applyFilters\<close>,
  the card list is the old one with the \<^verbatim>\<open>display\<close> of every card rewritten:
  \<^verbatim>\<open>"flex"\<close> when the conjunction over the three dimensions of "Unset, or the
  required boolean equals the card's tag" holds under the new filters, and
  \<^verbatim>\<open>"none"\<close> otherwise. No card is skipped and nothing else of a card changes.
\<close>

theorem toggleFilter_recomputes_every_card:
  "roomCards (toggleFilter d btn s) =
     map (\<lambda>c. c\<lparr>display :=
            (if dimensions_and (filters (toggleFilter d btn s)) c then ''flex'' else ''none'')\<rparr>)
         (roomCards s)"
  by (simp add: roomCards_toggleFilter applyFilters_loop_map showCard_dimensions_and)



text \<open>
  C7. The two cards of the scenarios. With \<^verbatim>\<open>direct\<close> on Require and the rest
  Unset only the first card is shown; with \<^verbatim>\<open>encrypted\<close> on Exclude as well the
  first card is still shown and the second hidden. The same holds on the running
  script: one click on the direct button, then two clicks on the encrypted button.
\<close>

theorem scenarios_B_and_C:
  "showCard \<lparr>direct = Require, encrypted = Unset, unread = Unset\<rparr> card1 \<and>
   \<not> showCard \<lparr>direct = Require, encrypted = Unset, unread = Unset\<rparr> card2 \<and>
   showCard \<lparr>direct = Require, encrypted = Exclude, unread = Unset\<rparr> card1 \<and>
   \<not> showCard \<lparr>direct = Require, encrypted = Exclude, unread = Unset\<rparr> card2 \<and>
   filters (click directRoomsBtn (init [card1, card2] cls))
     = \<lparr>direct = Require, encrypted = Unset, unread = Unset\<rparr> \<and>
   map display (roomCards (click directRoomsBtn (init [card1, card2] cls)))
     = [''flex'', ''none''] \<and>
   filters (click encryptedRoomsBtn (click encryptedRoomsBtn
       (click directRoomsBtn (init [card1, card2] cls))))
     = \<lparr>direct = Require, encrypted = Exclude, unread = Unset\<rparr> \<and>
   map display (roomCards (click encryptedRoomsBtn (click encryptedRoomsBtn
       (click directRoomsBtn (init [card1, card2] cls)))))
     = [''flex'', ''none'']"
  by (simp add: showCard_def checkFilter_def card1_def card2_def
      filters_toggleFilter roomCards_toggleFilter init_def)

text \<open>
  C8. What \<^verbatim>\<open>applyFilters\<close> writes to a card depends on the filters and on that
  card's three tags only: two runs under the same filters give a card with the same
  tags the same \<^verbatim>\<open>display\<close>, wherever the card stands in the list, whatever the
  other cards, the earlier \<^verbatim>\<open>display\<close> values and the buttons are. The collection
  of results is the image of the collection of cards, so the order of evaluation
  plays no part.
\<close>

theorem applyFilters_depends_on_filters_and_tags:
  assumes "filters s' = filters s"
    and "i < length (roomCards s)"
    and "j < length (roomCards s')"
    and "tagValue (roomCards s' ! j) = tagValue (roomCards s ! i)"
  shows "display (roomCards (applyFilters s') ! j) = display (roomCards (applyFilters s) ! i) \<and>
         mset (roomCards (applyFilters s)) =
           image_mset (\<lambda>c. c\<lparr>display := (if showCard (filters s) c then ''flex'' else ''none'')\<rparr>)
             (mset (roomCards s))"
proof -
  have "showCard (filters s) (roomCards s' ! j) = showCard (filters s) (roomCards s ! i)"
    using assms(4) by (rule showCard_tagValue)
  then show ?thesis
    using assms(1-3) by (simp add: applyFilters_def applyFilters_loop_map)
qed

theorem applyFilters_depends_on_filters_and_tags_witness:
  "filters (init [card2, card1\<lparr>isEncrypted := None, display := ''none''\<rparr>] (\<lambda>b. [''btn'']))
     = filters (init [card1, card2] (\<lambda>b. [])) \<and>
   0 < length (roomCards (init [card1, card2] (\<lambda>b. []))) \<and>
   1 < length (roomCards
         (init [card2, card1\<lparr>isEncrypted := None, display := ''none''\<rparr>] (\<lambda>b. [''btn'']))) \<and>
   display (roomCards (applyFilters
       (init [card2, card1\<lparr>isEncrypted := None, display := ''none''\<rparr>] (\<lambda>b. [''btn'']))) ! 1)
     = display (roomCards (applyFilters (init [card1, card2] (\<lambda>b. []))) ! 0)"
proof -
  let ?s = "init [card1, card2] (\<lambda>b. [])"
  let ?s' = "init [card2, card1\<lparr>isEncrypted := None, display := ''none''\<rparr>] (\<lambda>b. [''btn''])"
  have a: "filters ?s' = filters ?s" by (simp add: init_def)
  have b: "0 < length (roomCards ?s)" by (simp add: init_def)
  have c: "1 < length (roomCards ?s')" by (simp add: init_def)
  have d: "tagValue (roomCards ?s' ! 1) = tagValue (roomCards ?s ! 0)"
  proof (rule ext)
    fix d show "tagValue (roomCards ?s' ! 1) d = tagValue (roomCards ?s ! 0) d"
      by (cases d) (simp_all add: init_def tagValue_def card1_def)
  qed
  show ?thesis
    using a b c applyFilters_depends_on_filters_and_tags [OF a b c d] by simp
qed

text \<open>
  C9. When \<^verbatim>\<open>toggleFilter\<close> returns, the class list of the button it was given
  holds \<^verbatim>\<open>"active"\<close> exactly when the toggled filter is now Require and
  \<^verbatim>\<open>"inverted"\<close> exactly when it is now Exclude; so it holds neither when the
  filter is Unset, and never both.
\<close>

theorem toggleFilter_button_style:
  "(''active'' \<in> set (classList (toggleFilter d btn s) btn))
     = (filters_get (filters (toggleFilter d btn s)) d = Require) \<and>
   (''inverted'' \<in> set (classList (toggleFilter d btn s) btn))
     = (filters_get (filters (toggleFilter d btn s)) d = Exclude) \<and>
   \<not> (''active'' \<in> set (classList (toggleFilter d btn s) btn) \<and>
      ''inverted'' \<in> set (classList (toggleFilter d btn s) btn))"
  using updateButtonStyles_marker [of btn "filters_get (filters (toggleFilter d btn s)) d" s]
  by (auto simp: classList_toggleFilter)

text \<open>
  C10. The script compares each attribute with the string \<^verbatim>\<open>"true"\<close>. A card
  without the attribute of a dimension is shown exactly when the same card with the
  attribute \<^verbatim>\<open>"false"\<close> is. Whatever the attribute holds, the card passes Require
  on that dimension exactly when the attribute is the string \<^verbatim>\<open>"true"\<close>, passes
  Exclude exactly when it is anything else, and Unset ignores it. With the other two
  dimensions Unset this decides the outcome outright: under Require the card is shown
  when the attribute is \<^verbatim>\<open>"true"\<close> and hidden when it is absent, \<^verbatim>\<open>"false"\<close> or
  any other string, and under Exclude it is the other way round; \<^verbatim>\<open>applyFilters\<close>
  writes \<^verbatim>\<open>"flex"\<close> or \<^verbatim>\<open>"none"\<close> accordingly.
\<close>

theorem attribute_true_iff_exactly_true_string:
  "showCard f (set_attr d None c) = showCard f (set_attr d (Some ''false'') c) \<and>
   showCard (filters_set f d Require) (set_attr d v c)
     = (v = Some ''true'' \<and> showCard (filters_set f d Unset) c) \<and>
   showCard (filters_set f d Exclude) (set_attr d v c)
     = (v \<noteq> Some ''true'' \<and> showCard (filters_set f d Unset) c) \<and>
   showCard (filters_set f d Unset) (set_attr d v c) = showCard (filters_set f d Unset) c \<and>
   tagValue (set_attr d v c) d = (v = Some ''true'') \<and>
   checkFilter Require (tagValue (set_attr d v c) d) = (v = Some ''true'') \<and>
   checkFilter Exclude (tagValue (set_attr d v c) d) = (v \<noteq> Some ''true'') \<and>
   showCard (filters_set \<lparr>direct = Unset, encrypted = Unset, unread = Unset\<rparr> d Require)
       (set_attr d v c) = (v = Some ''true'') \<and>
   showCard (filters_set \<lparr>direct = Unset, encrypted = Unset, unread = Unset\<rparr> d Exclude)
       (set_attr d v c) = (v \<noteq> Some ''true'') \<and>
   showCard (filters_set \<lparr>direct = Unset, encrypted = Unset, unread = Unset\<rparr> d Require)
       (set_attr d (Some ''true'') c) \<and>
   \<not> showCard (filters_set \<lparr>direct = Unset, encrypted = Unset, unread = Unset\<rparr> d Require)
       (set_attr d None c) \<and>
   \<not> showCard (filters_set \<lparr>direct = Unset, encrypted = Unset, unread = Unset\<rparr> d Require)
       (set_attr d (Some ''false'') c) \<and>
   \<not> showCard (filters_set \<lparr>direct = Unset, encrypted = Unset, unread = Unset\<rparr> d Exclude)
       (set_attr d (Some ''true'') c) \<and>
   showCard (filters_set \<lparr>direct = Unset, encrypted = Unset, unread = Unset\<rparr> d Exclude)
       (set_attr d None c) \<and>
   showCard (filters_set \<lparr>direct = Unset, encrypted = Unset, unread = Unset\<rparr> d Exclude)
       (set_attr d (Some ''false'') c) \<and>
   applyFilters_loop
       (filters_set \<lparr>direct = Unset, encrypted = Unset, unread = Unset\<rparr> d Require)
       [set_attr d v c]
     = [(set_attr d v c)\<lparr>display := (if v = Some ''true'' then ''flex'' else ''none'')\<rparr>]"
proof -
  let ?u = "\<lparr>direct = Unset, encrypted = Unset, unread = Unset\<rparr>"
  have rel: "showCard f (set_attr d None c) = showCard f (set_attr d (Some ''false'') c) \<and>
     showCard (filters_set f d Require) (set_attr d v c)
       = (v = Some ''true'' \<and> showCard (filters_set f d Unset) c) \<and>
     showCard (filters_set f d Exclude) (set_attr d v c)
       = (v \<noteq> Some ''true'' \<and> showCard (filters_set f d Unset) c) \<and>
     showCard (filters_set f d Unset) (set_attr d v c) = showCard (filters_set f d Unset) c"
    by (cases d) (auto simp: showCard_def checkFilter_def)
  have tag: "tagValue (set_attr d w c) d = (w = Some ''true'')" for w
    by (cases d) (simp_all add: tagValue_def)
  have req: "showCard (filters_set ?u d Require) (set_attr d w c) = (w = Some ''true'')" for w
    by (cases d) (simp_all add: showCard_def checkFilter_def)
  have exc: "showCard (filters_set ?u d Exclude) (set_attr d w c) = (w \<noteq> Some ''true'')" for w
    by (cases d) (simp_all add: showCard_def checkFilter_def)
  have chk: "checkFilter Require (tagValue (set_attr d v c) d) = (v = Some ''true'') \<and>
     checkFilter Exclude (tagValue (set_attr d v c) d) = (v \<noteq> Some ''true'')"
    by (simp add: tag checkFilter_def)
  have app: "applyFilters_loop (filters_set ?u d Require) [set_attr d v c]
       = [(set_attr d v c)\<lparr>display := (if v = Some ''true'' then ''flex'' else ''none'')\<rparr>]"
    by (simp add: req)
  show ?thesis
    using rel chk app by (simp add: tag req exc)
qed

end
